theory Spec2Isabelle
  imports Main "HOL-Library.Sublist"
begin

section \<open>The identity context carrier of \<open>domain/auth/auth.go\<close>\<close>

text \<open>
  The package stores two request-scoped values in a Go \<open>context.Context\<close>: the realm of
  the \<open>WWW-Authenticate\<close> header and the access token. Both named types are strings or
  structs of strings.
\<close>

type_synonym WWWAuthenticateRealm = string

record AccessToken =
  Token :: string
  TokenType :: string

text \<open>
  A context key is an \<open>interface{}\<close> compared with \<open>==\<close>, so a key of the package's
  unexported type \<open>contextKey\<close> never equals a key of another dynamic type that happens to
  hold the same string. A context value is an \<open>interface{}\<close> too; the two getters assert its
  dynamic type, so the model keeps the dynamic type as a constructor.
\<close>

datatype ctx_key = contextKey string | foreign_key string

datatype ctx_val =
    RealmVal WWWAuthenticateRealm
  | AccessTokenVal AccessToken
  | OtherVal string

text \<open>
  Contexts are the non-nil values of \<open>context.Context\<close> that the standard library builds:
  the root, a value node over a parent, and a cancellation or deadline node over a parent
  (which carries no value of its own). The context package forbids a nil context
  (\<open>context.WithValue\<close> refuses a nil parent), and \<open>http.Request.Context\<close> never returns
  one, so nil is not a value of this type.
\<close>

datatype "context" =
    Background
  | WithValue "context" ctx_key ctx_val
  | WithCancel "context"

definition DefaultRealm :: WWWAuthenticateRealm where
  "DefaultRealm = ''go-api-basic''"

definition BearerTokenType :: string where
  "BearerTokenType = ''Bearer''"

definition contextKeyRealm :: ctx_key where
  "contextKeyRealm = contextKey ''realm''"

definition contextKeyAccessToken :: ctx_key where
  "contextKeyAccessToken = contextKey ''access-token''"

text \<open>
  \<open>ctx.Value(key)\<close>: the value of the nearest enclosing value node with that key, or nil
  (\<open>None\<close>) at the root.
\<close>

fun Value :: "context \<Rightarrow> ctx_key \<Rightarrow> ctx_val option" where
  "Value Background k = None"
| "Value (WithValue parent key val) k = (if key = k then Some val else Value parent k)"
| "Value (WithCancel parent) k = Value parent k"

text \<open>
  Everything that was ever attached along the chain of a context, nearest node first,
  whether or not a nearer node with the same key hides it.
\<close>

fun attachments :: "context \<Rightarrow> (ctx_key \<times> ctx_val) list" where
  "attachments Background = []"
| "attachments (WithValue parent key val) = (key, val) # attachments parent"
| "attachments (WithCancel parent) = attachments parent"

text \<open>
  A \<open>*http.Request\<close> is a pointer, \<open>None\<close> when nil. Of the request only its context field
  matters here; \<open>r.Context()\<close> returns the background context when the field is nil.
\<close>

record Request =
  req_ctx :: "context option"

definition Context :: "Request \<Rightarrow> context" where
  "Context r = (case req_ctx r of None \<Rightarrow> Background | Some c \<Rightarrow> c)"

text \<open>
  \<open>realm, ok = ctx.Value(contextKeyRealm).(WWWAuthenticateRealm)\<close>: the two-valued type
  assertion yields the zero value and \<open>false\<close> when the interface is nil or holds another
  dynamic type.
\<close>

definition RealmFromCtx :: "context \<Rightarrow> WWWAuthenticateRealm \<times> bool" where
  "RealmFromCtx c =
     (case Value c contextKeyRealm of
        Some (RealmVal realm) \<Rightarrow> (realm, True)
      | _ \<Rightarrow> ('''', False))"

definition RealmFromRequest :: "Request option \<Rightarrow> WWWAuthenticateRealm \<times> bool" where
  "RealmFromRequest r =
     (case r of
        None \<Rightarrow> ('''', False)
      | Some req \<Rightarrow> RealmFromCtx (Context req))"

definition CtxWithRealm :: "context \<Rightarrow> WWWAuthenticateRealm \<Rightarrow> context" where
  "CtxWithRealm c realm = WithValue c contextKeyRealm (RealmVal realm)"

definition NewAccessToken :: "string \<Rightarrow> string \<Rightarrow> AccessToken" where
  "NewAccessToken token tokenType = \<lparr>Token = token, TokenType = tokenType\<rparr>"

definition AccessTokenFromCtx :: "context \<Rightarrow> AccessToken \<times> bool" where
  "AccessTokenFromCtx c =
     (case Value c contextKeyAccessToken of
        Some (AccessTokenVal at) \<Rightarrow> (at, True)
      | _ \<Rightarrow> (\<lparr>Token = '''', TokenType = ''''\<rparr>, False))"

definition AccessTokenFromRequest :: "Request option \<Rightarrow> AccessToken \<times> bool" where
  "AccessTokenFromRequest r =
     (case r of
        None \<Rightarrow> (\<lparr>Token = '''', TokenType = ''''\<rparr>, False)
      | Some req \<Rightarrow> AccessTokenFromCtx (Context req))"

definition CtxWithAccessToken :: "context \<Rightarrow> AccessToken \<Rightarrow> context" where
  "CtxWithAccessToken c at = WithValue c contextKeyAccessToken (AccessTokenVal at)"

section \<open>The collaborators of \<open>Authorize\<close>\<close>

subsection \<open>Strings\<close>

text \<open>
  \<open>strings.HasPrefix(s, prefix)\<close> is
  \<open>len(s) >= len(prefix) && s[:len(prefix)] == prefix\<close> on byte strings.
\<close>

definition HasPrefix :: "string \<Rightarrow> string \<Rightarrow> bool" where
  "HasPrefix s pre = (length pre \<le> length s \<and> take (length pre) s = pre)"

text \<open>
  \<open>fmt.Sprintf\<close> restricted to the one verb the package uses, \<open>%s\<close>, on string operands:
  each verb is replaced by the next operand, and a verb with no operand left prints Go's
  \<open>%!s(MISSING)\<close>.
\<close>

fun Sprintf :: "string \<Rightarrow> string list \<Rightarrow> string" where
  "Sprintf [] args = []"
| "Sprintf [c] args = [c]"
| "Sprintf (c # d # fmt) args =
     (if c = CHR ''%'' \<and> d = CHR ''s'' then
        (case args of
           [] \<Rightarrow> ''%!s(MISSING)'' @ Sprintf fmt []
         | a # rest \<Rightarrow> a @ Sprintf fmt rest)
      else c # Sprintf (d # fmt) args)"

definition MethodGet :: string where
  "MethodGet = ''GET''"

subsection \<open>Structured errors\<close>

text \<open>
  Modelled from the spec: the package \<open>domain/errs\<close> (the kinds, the structured error and
  \<open>errs.NewUnauthorizedError\<close>) is not among the sources. The spec gives a closed
  enumeration of kinds, and an error value that carries its kind and wraps the cause it
  was built from; an error that no layer classified counts as \<open>Unanticipated\<close>.
  \<open>New\<close> is \<open>errors.New\<close>, an unclassified error holding only its message.
\<close>

datatype Kind =
    Invalid | Unauthenticated | Unauthorized | NotFound | Exist | Internal | Unanticipated

datatype error = New string | StructuredError Kind error

text \<open>
  Modelled from the spec: \<open>errs.NewUnauthorizedError\<close> is not among the sources; it
  classifies the given cause as \<open>Unauthorized\<close>.
\<close>

definition NewUnauthorizedError :: "error \<Rightarrow> error" where
  "NewUnauthorizedError cause = StructuredError Unauthorized cause"

text \<open>
  Modelled from the spec: reading the kind and the message of an error value of the
  absent package \<open>domain/errs\<close>; the message of a structured error is that of its cause.
\<close>

fun kind_of :: "error \<Rightarrow> Kind" where
  "kind_of (New msg) = Unanticipated"
| "kind_of (StructuredError k cause) = k"

fun message_of :: "error \<Rightarrow> string" where
  "message_of (New msg) = msg"
| "message_of (StructuredError k cause) = message_of cause"

subsection \<open>The logger\<close>

text \<open>
  A \<open>zerolog.Logger\<close> writes an event when the event's level is not below the logger's
  own level. The model keeps the logger's level and, as the state that \<open>Authorize\<close>
  changes, the list of events written so far. Levels are zerolog's numbers.
\<close>

definition DebugLevel :: int where
  "DebugLevel = 0"

definition InfoLevel :: int where
  "InfoLevel = 1"

record log_event =
  ev_level :: int
  ev_fields :: "(string \<times> string) list"
  ev_msg :: string

record Logger =
  level :: int
  written :: "log_event list"

definition emit :: "Logger \<Rightarrow> int \<Rightarrow> (string \<times> string) list \<Rightarrow> string \<Rightarrow> Logger" where
  "emit lgr lvl flds msg =
     (if lvl < level lgr then lgr
      else lgr\<lparr>written := written lgr @ [\<lparr>ev_level = lvl, ev_fields = flds, ev_msg = msg\<rparr>]\<rparr>)"

subsection \<open>The subject and the policy store\<close>

text \<open>Of \<open>user.User\<close> the authorizer reads only the \<open>Email\<close> field.\<close>

record User =
  Email :: string

text \<open>
  The casbin enforcer is outside the repository. Its \<open>Enforce(sub, obj, act)\<close> is taken as
  a parameter, a function of the three strings to a boolean over the loaded policy.
\<close>

type_synonym query = "string \<times> string \<times> string"

record CasbinAuthorizer =
  Enforcer :: "string \<Rightarrow> string \<Rightarrow> string \<Rightarrow> bool"

section \<open>\<open>CasbinAuthorizer.Authorize\<close>\<close>

text \<open>
  What a call leaves behind: the returned error (\<open>None\<close> is Go's nil), the logger after
  the call, and the queries put to the enforcer, in order.
\<close>

record AuthResult =
  ret :: "error option"
  logged :: Logger
  queried :: "query list"

definition moviesPath :: string where
  "moviesPath = ''/api/v1/movies''"

definition loggerPath :: string where
  "loggerPath = ''/api/v1/logger''"

text \<open>
  Lines 121 to 140 of the source: the verb is reduced to \<open>read\<close> or \<open>write\<close>, the enforcer
  is asked once, and the answer is logged and returned. Here \<open>obj\<close> is already the
  prefix that the caller assigned to it.
\<close>

definition Authorize_enforce ::
  "CasbinAuthorizer \<Rightarrow> Logger \<Rightarrow> User \<Rightarrow> string \<Rightarrow> string \<Rightarrow> AuthResult" where
  "Authorize_enforce a lgr sub obj act =
     (let act = (if act = MethodGet then ''read'' else ''write'');
          authorized = Enforcer a (Email sub) obj act;
          flds = [(''sub'', Email sub), (''obj'', obj), (''act'', act)]
      in if authorized then
           \<lparr>ret = None,
            logged = emit lgr DebugLevel flds
              (Sprintf ''Authorized (sub: %s, obj: %s, act: %s)'' [Email sub, obj, act]),
            queried = [(Email sub, obj, act)]\<rparr>
         else
           \<lparr>ret = Some (NewUnauthorizedError (New
              (Sprintf ''user %s does not have %s permission for %s'' [Email sub, act, obj]))),
            logged = emit lgr InfoLevel flds
              (Sprintf ''Unauthorized (sub: %s, obj: %s, act: %s)'' [Email sub, obj, act]),
            queried = [(Email sub, obj, act)]\<rparr>)"

text \<open>
  Lines 113 to 119: the object is replaced by the first prefix it starts with; with no
  such prefix the function returns at once, with the verb and the object as passed in.
\<close>

definition Authorize ::
  "CasbinAuthorizer \<Rightarrow> Logger \<Rightarrow> User \<Rightarrow> string \<Rightarrow> string \<Rightarrow> AuthResult" where
  "Authorize a lgr sub obj act =
     (if HasPrefix obj moviesPath then Authorize_enforce a lgr sub moviesPath act
      else if HasPrefix obj loggerPath then Authorize_enforce a lgr sub loggerPath act
      else
        \<lparr>ret = Some (NewUnauthorizedError (New
           (Sprintf ''user %s does not have %s permission for %s'' [Email sub, act, obj]))),
         logged = lgr,
         queried = []\<rparr>)"

section \<open>Sample data\<close>

text \<open>
  A policy store in which \<open>alice@example.com\<close> holds the read-only role on the movies
  collection, one in which she may write the logger configuration and nothing else, one
  that allows everything and one that allows nothing.
\<close>

definition alice_reads_movies :: "string \<Rightarrow> string \<Rightarrow> string \<Rightarrow> bool" where
  "alice_reads_movies s ob ac =
     (s = ''alice@example.com'' \<and> ob = ''/api/v1/movies'' \<and> ac = ''read'')"

definition alice_writes_logger :: "string \<Rightarrow> string \<Rightarrow> string \<Rightarrow> bool" where
  "alice_writes_logger s ob ac =
     (s = ''alice@example.com'' \<and> ob = ''/api/v1/logger'' \<and> ac = ''write'')"

definition allow_all :: "string \<Rightarrow> string \<Rightarrow> string \<Rightarrow> bool" where
  "allow_all s ob ac = True"

definition deny_all :: "string \<Rightarrow> string \<Rightarrow> string \<Rightarrow> bool" where
  "deny_all s ob ac = False"

definition alice :: User where
  "alice = \<lparr>Email = ''alice@example.com''\<rparr>"

definition quiet :: Logger where
  "quiet = \<lparr>level = 0, written = []\<rparr>"

section \<open>Basic facts\<close>

lemma HasPrefix_iff_append: "HasPrefix s pre \<longleftrightarrow> (\<exists>rest. s = pre @ rest)"
proof
  assume "HasPrefix s pre"
  then have "s = pre @ drop (length pre) s"
    by (metis HasPrefix_def append_take_drop_id)
  then show "\<exists>rest. s = pre @ rest" ..
next
  assume "\<exists>rest. s = pre @ rest"
  then show "HasPrefix s pre"
    by (auto simp: HasPrefix_def)
qed

lemma HasPrefix_iff_prefix: "HasPrefix s pre \<longleftrightarrow> prefix pre s"
  by (simp add: HasPrefix_iff_append prefix_def)

lemma Sprintf_permission:
  "Sprintf ''user %s does not have %s permission for %s'' [e, a, ob] =
     ''user '' @ e @ '' does not have '' @ a @ '' permission for '' @ ob"
  by simp

lemma movies_excludes_logger: "HasPrefix s moviesPath \<Longrightarrow> \<not> HasPrefix s loggerPath"
  by (auto simp: HasPrefix_def moviesPath_def loggerPath_def)

lemma Value_in_attachments: "Value c k = Some v \<Longrightarrow> (k, v) \<in> set (attachments c)"
  by (induction c) (auto split: if_splits)

lemma Authorize_enforce_queried:
  "queried (Authorize_enforce a lgr sub ob act) =
     [(Email sub, ob, if act = MethodGet then ''read'' else ''write'')]"
  by (simp add: Authorize_enforce_def Let_def)

lemma Authorize_enforce_ret:
  "ret (Authorize_enforce a lgr sub ob act) =
     (if Enforcer a (Email sub) ob (if act = MethodGet then ''read'' else ''write'') then None
      else Some (NewUnauthorizedError (New
        (''user '' @ Email sub @ '' does not have '' @
         (if act = MethodGet then ''read'' else ''write'') @ '' permission for '' @ ob))))"
  by (simp add: Authorize_enforce_def Let_def)

lemma Authorize_unknown:
  "\<not> HasPrefix obj moviesPath \<Longrightarrow> \<not> HasPrefix obj loggerPath \<Longrightarrow>
   Authorize a lgr sub obj act =
     \<lparr>ret = Some (NewUnauthorizedError (New
        (''user '' @ Email sub @ '' does not have '' @ act @ '' permission for '' @ obj))),
      logged = lgr, queried = []\<rparr>"
  by (simp add: Authorize_def)

lemma Authorize_enforce_same_iff:
  "Authorize_enforce a' lgr sub ob act = Authorize_enforce a lgr sub ob act \<longleftrightarrow>
     Enforcer a' (Email sub) ob (if act = MethodGet then ''read'' else ''write'') =
     Enforcer a (Email sub) ob (if act = MethodGet then ''read'' else ''write'')"
  by (auto simp: Authorize_enforce_def Let_def)

lemma Authorize_movies:
  "HasPrefix obj moviesPath \<Longrightarrow>
   Authorize a lgr sub obj act = Authorize_enforce a lgr sub moviesPath act"
  by (simp add: Authorize_def)

lemma Authorize_logger:
  "\<not> HasPrefix obj moviesPath \<Longrightarrow> HasPrefix obj loggerPath \<Longrightarrow>
   Authorize a lgr sub obj act = Authorize_enforce a lgr sub loggerPath act"
  by (simp add: Authorize_def)

lemma HasPrefix_self: "HasPrefix s s"
  by (simp add: HasPrefix_def)

lemma loggerPath_not_movies: "\<not> HasPrefix loggerPath moviesPath"
  by (simp add: HasPrefix_def moviesPath_def loggerPath_def)

section \<open>The authorization engine\<close>

text \<open>
  Claim C1. When the object path starts with neither \<open>/api/v1/movies\<close> nor
  \<open>/api/v1/logger\<close>, then for every subject and verb \<open>Authorize\<close> returns an error of kind
  Unauthorized at once: the enforcer is asked nothing, nothing is logged, and the whole
  outcome is the same whatever the enforcer is.
\<close>

theorem Authorize_unknown_prefix_denied:
  assumes "\<not> HasPrefix obj moviesPath" and "\<not> HasPrefix obj loggerPath"
  shows "(\<exists>e. ret (Authorize a lgr sub obj act) = Some e \<and> kind_of e = Unauthorized)
       \<and> queried (Authorize a lgr sub obj act) = []
       \<and> logged (Authorize a lgr sub obj act) = lgr
       \<and> Authorize a lgr sub obj act = Authorize a' lgr sub obj act"
  using assms by (simp add: Authorize_unknown NewUnauthorizedError_def)

text \<open>
  The path \<open>/api/v1/unknown-resource\<close> is such an object: a store that allows everything
  and a store that allows nothing give the same denial.
\<close>

theorem Authorize_unknown_prefix_denied_witness:
  "\<not> HasPrefix ''/api/v1/unknown-resource'' moviesPath
   \<and> \<not> HasPrefix ''/api/v1/unknown-resource'' loggerPath
   \<and> (\<exists>e. ret (Authorize \<lparr>Enforcer = allow_all\<rparr> quiet alice ''/api/v1/unknown-resource'' ''GET'') = Some e
          \<and> kind_of e = Unauthorized)
   \<and> queried (Authorize \<lparr>Enforcer = allow_all\<rparr> quiet alice ''/api/v1/unknown-resource'' ''GET'') = []
   \<and> logged (Authorize \<lparr>Enforcer = allow_all\<rparr> quiet alice ''/api/v1/unknown-resource'' ''GET'') = quiet
   \<and> Authorize \<lparr>Enforcer = allow_all\<rparr> quiet alice ''/api/v1/unknown-resource'' ''GET''
       = Authorize \<lparr>Enforcer = deny_all\<rparr> quiet alice ''/api/v1/unknown-resource'' ''GET''"
proof -
  have h1: "\<not> HasPrefix ''/api/v1/unknown-resource'' moviesPath"
    by (simp add: HasPrefix_def moviesPath_def)
  have h2: "\<not> HasPrefix ''/api/v1/unknown-resource'' loggerPath"
    by (simp add: HasPrefix_def loggerPath_def)
  show ?thesis
    using h1 h2
      Authorize_unknown_prefix_denied [OF h1 h2,
        of "\<lparr>Enforcer = allow_all\<rparr>" quiet alice "''GET''" "\<lparr>Enforcer = deny_all\<rparr>"]
    by blast
qed

text \<open>
  Claim C2. When the object path starts with a known prefix, the action put to the
  enforcer is \<open>read\<close> if the verb is the string \<open>http.MethodGet\<close> and \<open>write\<close> for
  every other verb string: the one recorded query has that action, \<open>Authorize\<close> returns
  nil exactly when the enforcer answers true at the subject's email, the prefix and that
  action, and two enforcers give the same outcome exactly when they give the same answer
  there, so the enforcer is asked about no other action.
\<close>

theorem Authorize_canonical_action:
  assumes "HasPrefix obj moviesPath \<or> HasPrefix obj loggerPath"
  shows "map (\<lambda>q. snd (snd q)) (queried (Authorize a lgr sub obj act)) =
           [if act = MethodGet then ''read'' else ''write'']
   \<and> (ret (Authorize a lgr sub obj act) = None \<longleftrightarrow>
        Enforcer a (Email sub) (if HasPrefix obj moviesPath then moviesPath else loggerPath)
          (if act = MethodGet then ''read'' else ''write''))
   \<and> (\<forall>a'. Authorize a' lgr sub obj act = Authorize a lgr sub obj act \<longleftrightarrow>
        Enforcer a' (Email sub) (if HasPrefix obj moviesPath then moviesPath else loggerPath)
          (if act = MethodGet then ''read'' else ''write'') =
        Enforcer a (Email sub) (if HasPrefix obj moviesPath then moviesPath else loggerPath)
          (if act = MethodGet then ''read'' else ''write''))"
proof (cases "HasPrefix obj moviesPath")
  case True
  then have eq: "Authorize b lgr sub obj act = Authorize_enforce b lgr sub moviesPath act" for b
    by (rule Authorize_movies)
  show ?thesis
    using True by (simp add: eq Authorize_enforce_queried Authorize_enforce_ret
        Authorize_enforce_same_iff)
next
  case False
  with assms have "HasPrefix obj loggerPath" by blast
  with False have eq: "Authorize b lgr sub obj act = Authorize_enforce b lgr sub loggerPath act" for b
    by (rule Authorize_logger)
  show ?thesis
    using False by (simp add: eq Authorize_enforce_queried Authorize_enforce_ret
        Authorize_enforce_same_iff)
qed

text \<open>
  The read-only subject on \<open>/api/v1/movies/42\<close>: \<open>GET\<close> asks for \<open>read\<close> and is
  allowed, \<open>POST\<close> asks for \<open>write\<close> and is refused; a store that allows everything
  agrees with hers on \<open>GET\<close> and differs on \<open>POST\<close>.
\<close>

theorem Authorize_canonical_action_witness:
  "(HasPrefix ''/api/v1/movies/42'' moviesPath \<or> HasPrefix ''/api/v1/movies/42'' loggerPath)
   \<and> map (\<lambda>q. snd (snd q))
         (queried (Authorize \<lparr>Enforcer = alice_reads_movies\<rparr> quiet alice ''/api/v1/movies/42'' ''GET''))
       = [''read'']
   \<and> map (\<lambda>q. snd (snd q))
         (queried (Authorize \<lparr>Enforcer = alice_reads_movies\<rparr> quiet alice ''/api/v1/movies/42'' ''POST''))
       = [''write'']
   \<and> ret (Authorize \<lparr>Enforcer = alice_reads_movies\<rparr> quiet alice ''/api/v1/movies/42'' ''GET'') = None
   \<and> ret (Authorize \<lparr>Enforcer = alice_reads_movies\<rparr> quiet alice ''/api/v1/movies/42'' ''POST'') \<noteq> None
   \<and> Authorize \<lparr>Enforcer = allow_all\<rparr> quiet alice ''/api/v1/movies/42'' ''GET''
       = Authorize \<lparr>Enforcer = alice_reads_movies\<rparr> quiet alice ''/api/v1/movies/42'' ''GET''
   \<and> Authorize \<lparr>Enforcer = allow_all\<rparr> quiet alice ''/api/v1/movies/42'' ''POST''
       \<noteq> Authorize \<lparr>Enforcer = alice_reads_movies\<rparr> quiet alice ''/api/v1/movies/42'' ''POST''"
proof -
  have m: "HasPrefix ''/api/v1/movies/42'' moviesPath"
    by (simp add: HasPrefix_def moviesPath_def)
  then have h: "HasPrefix ''/api/v1/movies/42'' moviesPath \<or> HasPrefix ''/api/v1/movies/42'' loggerPath"
    by blast
  show ?thesis
    using h m
      Authorize_canonical_action [OF h, of "\<lparr>Enforcer = alice_reads_movies\<rparr>" quiet alice "''GET''"]
      Authorize_canonical_action [OF h, of "\<lparr>Enforcer = alice_reads_movies\<rparr>" quiet alice "''POST''"]
    by (simp add: MethodGet_def alice_def moviesPath_def alice_reads_movies_def allow_all_def)
qed

text \<open>
  Claim C3. The object put to the enforcer is the prefix, not the path. A path that
  starts with the movies prefix, whatever else it starts with, gives the same outcome as
  the path \<open>/api/v1/movies\<close> itself: the recorded query has that object, \<open>Authorize\<close>
  returns nil exactly when the enforcer answers true at that object, and two enforcers
  give the same outcome exactly when they give the same answer there. A path that does
  not, and starts with the logger prefix, is treated in the same way as
  \<open>/api/v1/logger\<close>. In particular \<open>/api/v1/movies/123\<close> and \<open>/api/v1/movies\<close> give the
  same outcome for every subject, verb, logger and store.
\<close>

theorem Authorize_canonical_object:
  "(HasPrefix obj moviesPath \<longrightarrow>
      Authorize a lgr sub obj act = Authorize a lgr sub moviesPath act
      \<and> queried (Authorize a lgr sub obj act) =
          [(Email sub, moviesPath, if act = MethodGet then ''read'' else ''write'')]
      \<and> (ret (Authorize a lgr sub obj act) = None \<longleftrightarrow>
          Enforcer a (Email sub) moviesPath (if act = MethodGet then ''read'' else ''write''))
      \<and> (\<forall>a'. Authorize a' lgr sub obj act = Authorize a lgr sub obj act \<longleftrightarrow>
          Enforcer a' (Email sub) moviesPath (if act = MethodGet then ''read'' else ''write'') =
          Enforcer a (Email sub) moviesPath (if act = MethodGet then ''read'' else ''write'')))
   \<and> (\<not> HasPrefix obj moviesPath \<and> HasPrefix obj loggerPath \<longrightarrow>
      Authorize a lgr sub obj act = Authorize a lgr sub loggerPath act
      \<and> queried (Authorize a lgr sub obj act) =
          [(Email sub, loggerPath, if act = MethodGet then ''read'' else ''write'')]
      \<and> (ret (Authorize a lgr sub obj act) = None \<longleftrightarrow>
          Enforcer a (Email sub) loggerPath (if act = MethodGet then ''read'' else ''write''))
      \<and> (\<forall>a'. Authorize a' lgr sub obj act = Authorize a lgr sub obj act \<longleftrightarrow>
          Enforcer a' (Email sub) loggerPath (if act = MethodGet then ''read'' else ''write'') =
          Enforcer a (Email sub) loggerPath (if act = MethodGet then ''read'' else ''write'')))
   \<and> Authorize a lgr sub ''/api/v1/movies/123'' act = Authorize a lgr sub ''/api/v1/movies'' act
   \<and> map (\<lambda>q. fst (snd q)) (queried (Authorize a lgr sub ''/api/v1/movies/123'' act))
       = [''/api/v1/movies'']
   \<and> map (\<lambda>q. fst (snd q)) (queried (Authorize a lgr sub ''/api/v1/movies'' act))
       = [''/api/v1/movies'']"
proof (intro conjI impI)
  assume m: "HasPrefix obj moviesPath"
  have eq: "Authorize b lgr sub obj act = Authorize_enforce b lgr sub moviesPath act" for b
    using m by (rule Authorize_movies)
  show "Authorize a lgr sub obj act = Authorize a lgr sub moviesPath act"
    by (simp add: eq Authorize_movies [OF HasPrefix_self])
  show "queried (Authorize a lgr sub obj act) =
          [(Email sub, moviesPath, if act = MethodGet then ''read'' else ''write'')]"
    by (simp add: eq Authorize_enforce_queried)
  show "ret (Authorize a lgr sub obj act) = None \<longleftrightarrow>
          Enforcer a (Email sub) moviesPath (if act = MethodGet then ''read'' else ''write'')"
    by (simp add: eq Authorize_enforce_ret)
  show "\<forall>a'. Authorize a' lgr sub obj act = Authorize a lgr sub obj act \<longleftrightarrow>
          Enforcer a' (Email sub) moviesPath (if act = MethodGet then ''read'' else ''write'') =
          Enforcer a (Email sub) moviesPath (if act = MethodGet then ''read'' else ''write'')"
    by (simp add: eq Authorize_enforce_same_iff)
next
  assume l: "\<not> HasPrefix obj moviesPath \<and> HasPrefix obj loggerPath"
  have eq: "Authorize b lgr sub obj act = Authorize_enforce b lgr sub loggerPath act" for b
    using l by (simp add: Authorize_logger)
  show "Authorize a lgr sub obj act = Authorize a lgr sub loggerPath act"
    by (simp add: eq Authorize_logger [OF loggerPath_not_movies HasPrefix_self])
  show "queried (Authorize a lgr sub obj act) =
          [(Email sub, loggerPath, if act = MethodGet then ''read'' else ''write'')]"
    by (simp add: eq Authorize_enforce_queried)
  show "ret (Authorize a lgr sub obj act) = None \<longleftrightarrow>
          Enforcer a (Email sub) loggerPath (if act = MethodGet then ''read'' else ''write'')"
    by (simp add: eq Authorize_enforce_ret)
  show "\<forall>a'. Authorize a' lgr sub obj act = Authorize a lgr sub obj act \<longleftrightarrow>
          Enforcer a' (Email sub) loggerPath (if act = MethodGet then ''read'' else ''write'') =
          Enforcer a (Email sub) loggerPath (if act = MethodGet then ''read'' else ''write'')"
    by (simp add: eq Authorize_enforce_same_iff)
next
  have m1: "HasPrefix ''/api/v1/movies/123'' moviesPath"
    by (simp add: HasPrefix_def moviesPath_def)
  have m2: "HasPrefix ''/api/v1/movies'' moviesPath"
    by (simp add: HasPrefix_def moviesPath_def)
  show "Authorize a lgr sub ''/api/v1/movies/123'' act = Authorize a lgr sub ''/api/v1/movies'' act"
    by (simp add: Authorize_movies [OF m1] Authorize_movies [OF m2])
  show "map (\<lambda>q. fst (snd q)) (queried (Authorize a lgr sub ''/api/v1/movies/123'' act))
       = [''/api/v1/movies'']"
    by (simp add: Authorize_movies [OF m1] Authorize_enforce_queried) (simp add: moviesPath_def)
  show "map (\<lambda>q. fst (snd q)) (queried (Authorize a lgr sub ''/api/v1/movies'' act))
       = [''/api/v1/movies'']"
    by (simp add: Authorize_movies [OF m2] Authorize_enforce_queried) (simp add: moviesPath_def)
qed

text \<open>
  The scenario of the read-only subject on \<open>/api/v1/movies/42\<close>, which a store that
  allows nothing answers differently, and a writer of the logger configuration on a path
  under the logger prefix.
\<close>

theorem Authorize_canonical_object_witness:
  "HasPrefix ''/api/v1/movies/42'' moviesPath
   \<and> Authorize \<lparr>Enforcer = alice_reads_movies\<rparr> quiet alice ''/api/v1/movies/42'' ''GET''
       = Authorize \<lparr>Enforcer = alice_reads_movies\<rparr> quiet alice moviesPath ''GET''
   \<and> queried (Authorize \<lparr>Enforcer = alice_reads_movies\<rparr> quiet alice ''/api/v1/movies/42'' ''GET'')
       = [(''alice@example.com'', ''/api/v1/movies'', ''read'')]
   \<and> ret (Authorize \<lparr>Enforcer = alice_reads_movies\<rparr> quiet alice ''/api/v1/movies/42'' ''GET'') = None
   \<and> Authorize \<lparr>Enforcer = deny_all\<rparr> quiet alice ''/api/v1/movies/42'' ''GET''
       \<noteq> Authorize \<lparr>Enforcer = alice_reads_movies\<rparr> quiet alice ''/api/v1/movies/42'' ''GET''
   \<and> \<not> HasPrefix ''/api/v1/logger/level'' moviesPath
   \<and> HasPrefix ''/api/v1/logger/level'' loggerPath
   \<and> Authorize \<lparr>Enforcer = alice_writes_logger\<rparr> quiet alice ''/api/v1/logger/level'' ''PUT''
       = Authorize \<lparr>Enforcer = alice_writes_logger\<rparr> quiet alice loggerPath ''PUT''
   \<and> queried (Authorize \<lparr>Enforcer = alice_writes_logger\<rparr> quiet alice ''/api/v1/logger/level'' ''PUT'')
       = [(''alice@example.com'', ''/api/v1/logger'', ''write'')]
   \<and> ret (Authorize \<lparr>Enforcer = alice_writes_logger\<rparr> quiet alice ''/api/v1/logger/level'' ''PUT'') = None
   \<and> Authorize \<lparr>Enforcer = allow_all\<rparr> quiet alice ''/api/v1/logger/level'' ''PUT''
       = Authorize \<lparr>Enforcer = alice_writes_logger\<rparr> quiet alice ''/api/v1/logger/level'' ''PUT''"
proof -
  have m: "HasPrefix ''/api/v1/movies/42'' moviesPath"
    by (simp add: HasPrefix_def moviesPath_def)
  have l: "\<not> HasPrefix ''/api/v1/logger/level'' moviesPath
           \<and> HasPrefix ''/api/v1/logger/level'' loggerPath"
    by (simp add: HasPrefix_def moviesPath_def loggerPath_def)
  have am: "Enforcer \<lparr>Enforcer = alice_reads_movies\<rparr> (Email alice) moviesPath
              (if ''GET'' = MethodGet then ''read'' else ''write'')"
    by (simp add: alice_reads_movies_def alice_def moviesPath_def MethodGet_def)
  have dm: "\<not> Enforcer \<lparr>Enforcer = deny_all\<rparr> (Email alice) moviesPath
              (if ''GET'' = MethodGet then ''read'' else ''write'')"
    by (simp add: deny_all_def)
  have al: "Enforcer \<lparr>Enforcer = alice_writes_logger\<rparr> (Email alice) loggerPath
              (if ''PUT'' = MethodGet then ''read'' else ''write'')"
    by (simp add: alice_writes_logger_def alice_def loggerPath_def MethodGet_def)
  have ll: "Enforcer \<lparr>Enforcer = allow_all\<rparr> (Email alice) loggerPath
              (if ''PUT'' = MethodGet then ''read'' else ''write'')"
    by (simp add: allow_all_def)
  have e: "Email alice = ''alice@example.com''" "moviesPath = ''/api/v1/movies''"
    "loggerPath = ''/api/v1/logger''"
    "(if ''GET'' = MethodGet then ''read'' else ''write'') = ''read''"
    "(if ''PUT'' = MethodGet then ''read'' else ''write'') = ''write''"
    by (simp_all add: alice_def moviesPath_def loggerPath_def MethodGet_def)
  note movies = Authorize_canonical_object [of "''/api/v1/movies/42''" "\<lparr>Enforcer = alice_reads_movies\<rparr>" quiet alice "''GET''",
      THEN conjunct1, rule_format, OF m]
  note logger = Authorize_canonical_object [of "''/api/v1/logger/level''" "\<lparr>Enforcer = alice_writes_logger\<rparr>" quiet alice "''PUT''",
      THEN conjunct2, THEN conjunct1, rule_format, OF l]
  have m1: "Authorize \<lparr>Enforcer = alice_reads_movies\<rparr> quiet alice ''/api/v1/movies/42'' ''GET''
       = Authorize \<lparr>Enforcer = alice_reads_movies\<rparr> quiet alice moviesPath ''GET''"
    using movies by blast
  have m2: "queried (Authorize \<lparr>Enforcer = alice_reads_movies\<rparr> quiet alice ''/api/v1/movies/42'' ''GET'')
       = [(''alice@example.com'', ''/api/v1/movies'', ''read'')]"
    using movies [THEN conjunct2, THEN conjunct1] by (simp add: e)
  have m3: "ret (Authorize \<lparr>Enforcer = alice_reads_movies\<rparr> quiet alice ''/api/v1/movies/42'' ''GET'') = None"
    using movies am by blast
  have m4: "Authorize \<lparr>Enforcer = deny_all\<rparr> quiet alice ''/api/v1/movies/42'' ''GET''
       \<noteq> Authorize \<lparr>Enforcer = alice_reads_movies\<rparr> quiet alice ''/api/v1/movies/42'' ''GET''"
    using movies am dm by blast
  have l1: "Authorize \<lparr>Enforcer = alice_writes_logger\<rparr> quiet alice ''/api/v1/logger/level'' ''PUT''
       = Authorize \<lparr>Enforcer = alice_writes_logger\<rparr> quiet alice loggerPath ''PUT''"
    using logger by blast
  have l2: "queried (Authorize \<lparr>Enforcer = alice_writes_logger\<rparr> quiet alice ''/api/v1/logger/level'' ''PUT'')
       = [(''alice@example.com'', ''/api/v1/logger'', ''write'')]"
    using logger [THEN conjunct2, THEN conjunct1] by (simp add: e)
  have l3: "ret (Authorize \<lparr>Enforcer = alice_writes_logger\<rparr> quiet alice ''/api/v1/logger/level'' ''PUT'') = None"
    using logger al by blast
  have l4: "Authorize \<lparr>Enforcer = allow_all\<rparr> quiet alice ''/api/v1/logger/level'' ''PUT''
       = Authorize \<lparr>Enforcer = alice_writes_logger\<rparr> quiet alice ''/api/v1/logger/level'' ''PUT''"
    using logger al ll by blast
  show ?thesis
    using m l m1 m2 m3 m4 l1 l2 l3 l4 by blast
qed

text \<open>
  Claim C4. For every subject, object path and verb, \<open>Authorize\<close> returns nil exactly when
  a known prefix matches and the enforcer answers true to the query for that prefix and
  the reduced verb; every error it returns has kind Unauthorized.
\<close>

theorem Authorize_nil_or_unauthorized:
  "(ret (Authorize a lgr sub obj act) = None \<longleftrightarrow>
      (HasPrefix obj moviesPath \<and>
         Enforcer a (Email sub) moviesPath (if act = MethodGet then ''read'' else ''write''))
      \<or> (\<not> HasPrefix obj moviesPath \<and> HasPrefix obj loggerPath \<and>
         Enforcer a (Email sub) loggerPath (if act = MethodGet then ''read'' else ''write'')))
   \<and> (\<forall>e. ret (Authorize a lgr sub obj act) = Some e \<longrightarrow> kind_of e = Unauthorized)"
  by (simp add: Authorize_def Authorize_enforce_ret NewUnauthorizedError_def)

text \<open>
  The read-only subject is allowed to \<open>GET\<close> a movie and is refused a \<open>POST\<close> with an
  error of kind Unauthorized.
\<close>

theorem Authorize_nil_or_unauthorized_witness:
  "ret (Authorize \<lparr>Enforcer = alice_reads_movies\<rparr> quiet alice ''/api/v1/movies/42'' ''GET'') = None
   \<and> ret (Authorize \<lparr>Enforcer = alice_reads_movies\<rparr> quiet alice ''/api/v1/movies'' ''POST'')
       = Some (NewUnauthorizedError (New
           ''user alice@example.com does not have write permission for /api/v1/movies''))
   \<and> kind_of (NewUnauthorizedError (New
           ''user alice@example.com does not have write permission for /api/v1/movies''))
       = Unauthorized"
proof -
  have m: "HasPrefix ''/api/v1/movies/42'' moviesPath"
    by (simp add: HasPrefix_def moviesPath_def)
  have ok: "Enforcer \<lparr>Enforcer = alice_reads_movies\<rparr> (Email alice) moviesPath
              (if ''GET'' = MethodGet then ''read'' else ''write'')"
    by (simp add: alice_reads_movies_def alice_def moviesPath_def MethodGet_def)
  have allowed:
    "ret (Authorize \<lparr>Enforcer = alice_reads_movies\<rparr> quiet alice ''/api/v1/movies/42'' ''GET'') = None"
    using m ok
      Authorize_nil_or_unauthorized
        [of "\<lparr>Enforcer = alice_reads_movies\<rparr>" quiet alice "''/api/v1/movies/42''" "''GET''"]
    by blast
  have denied:
    "ret (Authorize \<lparr>Enforcer = alice_reads_movies\<rparr> quiet alice ''/api/v1/movies'' ''POST'')
       = Some (NewUnauthorizedError (New
           ''user alice@example.com does not have write permission for /api/v1/movies''))"
    by (simp add: Authorize_def Authorize_enforce_ret HasPrefix_def moviesPath_def
        alice_reads_movies_def alice_def MethodGet_def)
  have "kind_of (NewUnauthorizedError (New
           ''user alice@example.com does not have write permission for /api/v1/movies''))
          = Unauthorized"
    using denied
      Authorize_nil_or_unauthorized
        [of "\<lparr>Enforcer = alice_reads_movies\<rparr>" quiet alice "''/api/v1/movies''" "''POST''"]
    by blast
  with allowed denied show ?thesis by blast
qed

text \<open>
  Claim C5. \<open>Authorize\<close> is deterministic. The only state a call changes is the logger,
  and the decision does not read it: with the same enforcer, subject, object and verb the
  returned error is the same from any two logger states, in particular when the second
  call runs on the logger that the first call left behind, and the second call puts the
  same query to the store.
\<close>

theorem Authorize_deterministic:
  "ret (Authorize a lgr sub obj act) = ret (Authorize a lgr' sub obj act)
   \<and> ret (Authorize a (logged (Authorize a lgr sub obj act)) sub obj act)
       = ret (Authorize a lgr sub obj act)
   \<and> queried (Authorize a (logged (Authorize a lgr sub obj act)) sub obj act)
       = queried (Authorize a lgr sub obj act)"
  by (simp add: Authorize_def Authorize_enforce_ret Authorize_enforce_queried)

text \<open>
  Claim C9, as the code has it. When a known prefix matched and the enforcer refused, the
  message of the error names the subject, the reduced verb and the prefix. When no known
  prefix matches, the message names the subject, the verb and the object path as they
  were passed in.
\<close>

theorem Authorize_denial_message:
  "(HasPrefix obj moviesPath \<and>
      \<not> Enforcer a (Email sub) moviesPath (if act = MethodGet then ''read'' else ''write'') \<longrightarrow>
      ret (Authorize a lgr sub obj act) = Some (NewUnauthorizedError (New
        (''user '' @ Email sub @ '' does not have '' @
         (if act = MethodGet then ''read'' else ''write'') @ '' permission for '' @ moviesPath))))
   \<and> (\<not> HasPrefix obj moviesPath \<and> HasPrefix obj loggerPath \<and>
      \<not> Enforcer a (Email sub) loggerPath (if act = MethodGet then ''read'' else ''write'') \<longrightarrow>
      ret (Authorize a lgr sub obj act) = Some (NewUnauthorizedError (New
        (''user '' @ Email sub @ '' does not have '' @
         (if act = MethodGet then ''read'' else ''write'') @ '' permission for '' @ loggerPath))))
   \<and> (\<not> HasPrefix obj moviesPath \<and> \<not> HasPrefix obj loggerPath \<longrightarrow>
      ret (Authorize a lgr sub obj act) = Some (NewUnauthorizedError (New
        (''user '' @ Email sub @ '' does not have '' @ act @ '' permission for '' @ obj))))"
proof (intro conjI impI)
  assume "HasPrefix obj moviesPath \<and>
      \<not> Enforcer a (Email sub) moviesPath (if act = MethodGet then ''read'' else ''write'')"
  then show "ret (Authorize a lgr sub obj act) = Some (NewUnauthorizedError (New
        (''user '' @ Email sub @ '' does not have '' @
         (if act = MethodGet then ''read'' else ''write'') @ '' permission for '' @ moviesPath)))"
    by (simp add: Authorize_def Authorize_enforce_ret)
next
  assume "\<not> HasPrefix obj moviesPath \<and> HasPrefix obj loggerPath \<and>
      \<not> Enforcer a (Email sub) loggerPath (if act = MethodGet then ''read'' else ''write'')"
  then show "ret (Authorize a lgr sub obj act) = Some (NewUnauthorizedError (New
        (''user '' @ Email sub @ '' does not have '' @
         (if act = MethodGet then ''read'' else ''write'') @ '' permission for '' @ loggerPath)))"
    by (simp add: Authorize_def Authorize_enforce_ret)
next
  assume "\<not> HasPrefix obj moviesPath \<and> \<not> HasPrefix obj loggerPath"
  then show "ret (Authorize a lgr sub obj act) = Some (NewUnauthorizedError (New
        (''user '' @ Email sub @ '' does not have '' @ act @ '' permission for '' @ obj)))"
    by (simp add: Authorize_unknown)
qed

text \<open>One refusal of each of the three sorts, for the read-only subject.\<close>

theorem Authorize_denial_message_witness:
  "HasPrefix ''/api/v1/movies'' moviesPath
   \<and> \<not> Enforcer \<lparr>Enforcer = alice_reads_movies\<rparr> (Email alice) moviesPath ''write''
   \<and> ret (Authorize \<lparr>Enforcer = alice_reads_movies\<rparr> quiet alice ''/api/v1/movies'' ''POST'')
       = Some (NewUnauthorizedError (New
           ''user alice@example.com does not have write permission for /api/v1/movies''))
   \<and> \<not> HasPrefix ''/api/v1/logger'' moviesPath \<and> HasPrefix ''/api/v1/logger'' loggerPath
   \<and> \<not> Enforcer \<lparr>Enforcer = alice_reads_movies\<rparr> (Email alice) loggerPath ''read''
   \<and> ret (Authorize \<lparr>Enforcer = alice_reads_movies\<rparr> quiet alice ''/api/v1/logger'' ''GET'')
       = Some (NewUnauthorizedError (New
           ''user alice@example.com does not have read permission for /api/v1/logger''))
   \<and> \<not> HasPrefix ''/api/v1/unknown-resource'' moviesPath
   \<and> \<not> HasPrefix ''/api/v1/unknown-resource'' loggerPath
   \<and> ret (Authorize \<lparr>Enforcer = alice_reads_movies\<rparr> quiet alice
            ''/api/v1/unknown-resource'' ''DELETE'')
       = Some (NewUnauthorizedError (New
           ''user alice@example.com does not have DELETE permission for /api/v1/unknown-resource''))"
proof -
  have m: "HasPrefix ''/api/v1/movies'' moviesPath"
    by (simp add: HasPrefix_def moviesPath_def)
  have l: "\<not> HasPrefix ''/api/v1/logger'' moviesPath \<and> HasPrefix ''/api/v1/logger'' loggerPath"
    by (simp add: HasPrefix_def moviesPath_def loggerPath_def)
  have u: "\<not> HasPrefix ''/api/v1/unknown-resource'' moviesPath
           \<and> \<not> HasPrefix ''/api/v1/unknown-resource'' loggerPath"
    by (simp add: HasPrefix_def moviesPath_def loggerPath_def)
  have dm: "\<not> Enforcer \<lparr>Enforcer = alice_reads_movies\<rparr> (Email alice) moviesPath ''write''"
    by (simp add: alice_reads_movies_def)
  have dl: "\<not> Enforcer \<lparr>Enforcer = alice_reads_movies\<rparr> (Email alice) loggerPath ''read''"
    by (simp add: alice_reads_movies_def loggerPath_def)
  show ?thesis
    using m l u dm dl
      Authorize_denial_message
        [of "''/api/v1/movies''" "\<lparr>Enforcer = alice_reads_movies\<rparr>" alice "''POST''" quiet]
      Authorize_denial_message
        [of "''/api/v1/logger''" "\<lparr>Enforcer = alice_reads_movies\<rparr>" alice "''GET''" quiet]
      Authorize_denial_message
        [of "''/api/v1/unknown-resource''" "\<lparr>Enforcer = alice_reads_movies\<rparr>" alice "''DELETE''" quiet]
    by (simp add: MethodGet_def alice_def moviesPath_def loggerPath_def)
qed

text \<open>
  Claim C9 as stated fails on the step before the store is asked: for \<open>GET\<close> on
  \<open>/api/v1/unknown-resource\<close> the message holds the verb \<open>GET\<close> and the whole path, and
  neither \<open>read\<close> nor \<open>write\<close> occurs in it.
\<close>

theorem Authorize_unknown_prefix_message_counterexample:
  "ret (Authorize \<lparr>Enforcer = deny_all\<rparr> quiet alice ''/api/v1/unknown-resource'' ''GET'')
     = Some (NewUnauthorizedError (New
         ''user alice@example.com does not have GET permission for /api/v1/unknown-resource''))
   \<and> \<not> sublist ''read''
         ''user alice@example.com does not have GET permission for /api/v1/unknown-resource''
   \<and> \<not> sublist ''write''
         ''user alice@example.com does not have GET permission for /api/v1/unknown-resource''
   \<and> sublist ''GET''
         ''user alice@example.com does not have GET permission for /api/v1/unknown-resource''
   \<and> sublist ''/api/v1/unknown-resource''
         ''user alice@example.com does not have GET permission for /api/v1/unknown-resource''"
proof -
  have "\<not> HasPrefix ''/api/v1/unknown-resource'' moviesPath"
    by (simp add: HasPrefix_def moviesPath_def)
  moreover have "\<not> HasPrefix ''/api/v1/unknown-resource'' loggerPath"
    by (simp add: HasPrefix_def loggerPath_def)
  ultimately
  have "ret (Authorize \<lparr>Enforcer = deny_all\<rparr> quiet alice ''/api/v1/unknown-resource'' ''GET'')
     = Some (NewUnauthorizedError (New
         ''user alice@example.com does not have GET permission for /api/v1/unknown-resource''))"
    by (simp add: Authorize_unknown alice_def)
  moreover have "\<not> sublist ''read''
         ''user alice@example.com does not have GET permission for /api/v1/unknown-resource''"
    by code_simp
  moreover have "\<not> sublist ''write''
         ''user alice@example.com does not have GET permission for /api/v1/unknown-resource''"
    by code_simp
  moreover have "sublist ''GET''
         ''user alice@example.com does not have GET permission for /api/v1/unknown-resource''"
    by code_simp
  moreover have "sublist ''/api/v1/unknown-resource''
         ''user alice@example.com does not have GET permission for /api/v1/unknown-resource''"
    by code_simp
  ultimately show ?thesis by blast
qed

section \<open>The context carrier\<close>

text \<open>
  Claim C6. Attaching an access token and retrieving it returns that token with
  \<open>ok = true\<close>, for every context and token. From a context along whose chain no access
  token was attached under the package's key, retrieval returns the zero token with
  \<open>ok = false\<close>.
\<close>

theorem AccessToken_ctx_roundtrip:
  "AccessTokenFromCtx (CtxWithAccessToken c at) = (at, True)
   \<and> ((\<forall>t. (contextKeyAccessToken, AccessTokenVal t) \<notin> set (attachments c)) \<longrightarrow>
        AccessTokenFromCtx c = (\<lparr>Token = '''', TokenType = ''''\<rparr>, False))"
proof (intro conjI impI)
  show "AccessTokenFromCtx (CtxWithAccessToken c at) = (at, True)"
    by (simp add: AccessTokenFromCtx_def CtxWithAccessToken_def)
next
  assume none: "\<forall>t. (contextKeyAccessToken, AccessTokenVal t) \<notin> set (attachments c)"
  have "Value c contextKeyAccessToken \<noteq> Some (AccessTokenVal t)" for t
    using none Value_in_attachments by blast
  then show "AccessTokenFromCtx c = (\<lparr>Token = '''', TokenType = ''''\<rparr>, False)"
    by (auto simp: AccessTokenFromCtx_def split: option.splits ctx_val.splits)
qed

text \<open>A context that carries only a realm, before and after a token is attached.\<close>

theorem AccessToken_ctx_roundtrip_witness:
  "(\<forall>t. (contextKeyAccessToken, AccessTokenVal t)
        \<notin> set (attachments (CtxWithRealm Background DefaultRealm)))
   \<and> AccessTokenFromCtx (CtxWithRealm Background DefaultRealm)
       = (\<lparr>Token = '''', TokenType = ''''\<rparr>, False)
   \<and> AccessTokenFromCtx (CtxWithAccessToken (CtxWithRealm Background DefaultRealm)
          (NewAccessToken ''abcdef123'' BearerTokenType))
       = (NewAccessToken ''abcdef123'' BearerTokenType, True)"
proof -
  have h: "\<forall>t. (contextKeyAccessToken, AccessTokenVal t)
             \<notin> set (attachments (CtxWithRealm Background DefaultRealm))"
    by (simp add: CtxWithRealm_def contextKeyAccessToken_def contextKeyRealm_def)
  show ?thesis
    using h
      AccessToken_ctx_roundtrip
        [of "CtxWithRealm Background DefaultRealm" "NewAccessToken ''abcdef123'' BearerTokenType"]
    by blast
qed

text \<open>
  Claim C7, as the code has it. From a context along whose chain no realm was attached
  under the package's key, \<open>RealmFromCtx\<close> returns the empty realm with \<open>ok = false\<close>; it
  does not put \<open>DefaultRealm\<close> in its place.
\<close>

theorem RealmFromCtx_absent:
  assumes "\<forall>r. (contextKeyRealm, RealmVal r) \<notin> set (attachments c)"
  shows "RealmFromCtx c = ('''', False)"
proof -
  have "Value c contextKeyRealm \<noteq> Some (RealmVal r)" for r
    using assms Value_in_attachments by blast
  then show ?thesis
    by (auto simp: RealmFromCtx_def split: option.splits ctx_val.splits)
qed

text \<open>A context that carries only an access token has no realm.\<close>

theorem RealmFromCtx_absent_witness:
  "(\<forall>r. (contextKeyRealm, RealmVal r) \<notin> set (attachments
       (CtxWithAccessToken Background (NewAccessToken ''abcdef123'' BearerTokenType))))
   \<and> RealmFromCtx (CtxWithAccessToken Background (NewAccessToken ''abcdef123'' BearerTokenType))
       = ('''', False)"
proof -
  have h: "\<forall>r. (contextKeyRealm, RealmVal r) \<notin> set (attachments
       (CtxWithAccessToken Background (NewAccessToken ''abcdef123'' BearerTokenType)))"
    by (simp add: CtxWithAccessToken_def contextKeyAccessToken_def contextKeyRealm_def)
  show ?thesis
    using h RealmFromCtx_absent [OF h] by blast
qed

text \<open>
  Claim C7 as stated fails on the background context: the realm returned is not
  \<open>go-api-basic\<close>, and \<open>ok\<close> is false.
\<close>

theorem RealmFromCtx_default_counterexample:
  "fst (RealmFromCtx Background) \<noteq> DefaultRealm \<and> \<not> snd (RealmFromCtx Background)"
  by (simp add: RealmFromCtx_def DefaultRealm_def)

text \<open>
  Claim C8 asks that a token attached with an empty \<open>Token\<close> string is not retrieved as a
  plain success, and the test \<open>TestFromRequest\<close> of the package expects a failure for it.
  The code returns it with \<open>ok = true\<close>, the same \<open>ok\<close> as for the token \<open>abcdef123\<close>, from
  the context and from a request holding that context.
\<close>

theorem AccessTokenFromCtx_empty_token_found:
  "AccessTokenFromCtx (CtxWithAccessToken Background (NewAccessToken '''' BearerTokenType))
     = (NewAccessToken '''' BearerTokenType, True)
   \<and> AccessTokenFromRequest
        (Some \<lparr>req_ctx = Some (CtxWithAccessToken Background (NewAccessToken '''' BearerTokenType))\<rparr>)
     = (NewAccessToken '''' BearerTokenType, True)
   \<and> snd (AccessTokenFromCtx (CtxWithAccessToken Background (NewAccessToken '''' BearerTokenType)))
     = snd (AccessTokenFromCtx
         (CtxWithAccessToken Background (NewAccessToken ''abcdef123'' BearerTokenType)))"
  by (simp add: AccessTokenFromCtx_def AccessTokenFromRequest_def Context_def
      CtxWithAccessToken_def)

text \<open>
  Claim C10. On a nil request, \<open>AccessTokenFromRequest\<close> and \<open>RealmFromRequest\<close> return the
  zero value and \<open>ok = false\<close>; on a request that is not nil they are the retrieval from
  the request's context, so both are total.
\<close>

theorem FromRequest_nil:
  "AccessTokenFromRequest None = (\<lparr>Token = '''', TokenType = ''''\<rparr>, False)
   \<and> RealmFromRequest None = ('''', False)
   \<and> AccessTokenFromRequest (Some r) = AccessTokenFromCtx (Context r)
   \<and> RealmFromRequest (Some r) = RealmFromCtx (Context r)"
  by (simp add: AccessTokenFromRequest_def RealmFromRequest_def)

end
